theory Spec2Isabelle
  imports Complex_Main
begin

section \<open>Semisizer: the pipeline of Semisizer.py as state-passing functions\<close>

text \<open>
  The program is a linear pipeline over three external systems (a downloader, a speech
  model, a language model), a conversion subprocess, the file system and a browser UI.
  The model keeps the program's own control flow and makes everything else explicit:
  \<^item> every external call is a field of the record \<open>env\<close>, an arbitrary function that may
    return a value or raise;
  \<^item> the file system and the sequence of observable actions (UI calls, external calls,
    clock readings, deletions) are the two fields of the record \<open>world\<close>, passed through
    every function;
  \<^item> a Python exception is a value \<open>Inl e\<close>; a function returns the pair of its result and
    the world in which it stopped, so the state reached before a raise is kept.
  Exceptions are the instances of Python's class \<open>Exception\<close>, the ones an
  \<open>except Exception\<close> clause catches. Calls into the UI library are taken to return.
\<close>

subsection \<open>Python strings and values\<close>

text \<open>
  A Python \<open>str\<close> is a sequence of code points; \<open>ascii\<close> reads an ASCII literal as one.
\<close>

type_synonym pystr = "nat list"

definition ascii :: "string \<Rightarrow> pystr" where
  "ascii s = map of_char s"

text \<open>\<open>str.isspace\<close> for one code point, as CPython's Unicode database has it.\<close>

definition isspace :: "nat \<Rightarrow> bool" where
  "isspace c \<longleftrightarrow>
     (9 \<le> c \<and> c \<le> 13) \<or> (28 \<le> c \<and> c \<le> 32) \<or> c = 133 \<or> c = 160 \<or> c = 5760 \<or>
     (8192 \<le> c \<and> c \<le> 8202) \<or> c = 8232 \<or> c = 8233 \<or> c = 8239 \<or> c = 8287 \<or> c = 12288"

text \<open>\<open>s.strip()\<close>: leading and trailing whitespace removed.\<close>

definition strip :: "pystr \<Rightarrow> pystr" where
  "strip s = rev (dropWhile isspace (rev (dropWhile isspace s)))"

text \<open>\<open>s.endswith(suffix)\<close>.\<close>

definition endswith :: "pystr \<Rightarrow> pystr \<Rightarrow> bool" where
  "endswith s suffix \<longleftrightarrow>
     length suffix \<le> length s \<and> drop (length s - length suffix) s = suffix"

datatype exn =
    RuntimeError pystr
  | AttributeError pystr
  | FileNotFoundError pystr
  | IsADirectoryError pystr
  | OtherException pystr

text \<open>
  The values a chat response is made of: \<open>None\<close>, a string, or a dictionary (its items in
  order, looked up by \<open>map_of\<close>).
\<close>

datatype pyval = PNone | PStr pystr | PDict "(pystr \<times> pyval) list"

text \<open>\<open>bool(v)\<close>.\<close>

fun truthy :: "pyval \<Rightarrow> bool" where
  "truthy PNone = False"
| "truthy (PStr s) = (s \<noteq> [])"
| "truthy (PDict kvs) = (kvs \<noteq> [])"

text \<open>\<open>v.get(key, default)\<close>: defined on dictionaries, an AttributeError elsewhere.\<close>

fun py_get :: "pyval \<Rightarrow> pystr \<Rightarrow> pyval \<Rightarrow> exn + pyval" where
  "py_get (PDict kvs) key dflt = Inr (case map_of kvs key of Some v \<Rightarrow> v | None \<Rightarrow> dflt)"
| "py_get v key dflt = Inl (AttributeError (ascii ''get''))"

text \<open>\<open>v.strip()\<close>: defined on strings, an AttributeError elsewhere.\<close>

fun py_strip :: "pyval \<Rightarrow> exn + pystr" where
  "py_strip (PStr s) = Inr (strip s)"
| "py_strip v = Inl (AttributeError (ascii ''strip''))"

text \<open>A value that is a string or \<open>None\<close>, as \<open>bool\<close> and as an f-string field see it.\<close>

fun truthy_opt :: "pystr option \<Rightarrow> bool" where
  "truthy_opt None = False"
| "truthy_opt (Some s) = (s \<noteq> [])"

fun format_field :: "pystr option \<Rightarrow> pystr" where
  "format_field None = ascii ''None''"
| "format_field (Some s) = s"

subsection \<open>The world: file system and observable actions\<close>

datatype node = File | Dir

type_synonym filesystem = "pystr \<Rightarrow> node option"

text \<open>
  The texts shown to the user, one constructor for each literal of the source; the
  interpolated parts are the arguments.
\<close>

datatype msg =
    Hide_chrome_css
  | Background_css pystr
  | Title_html
  | Subtitle_html
  | About_extracts
  | About_enter_url
  | Downloading_audio
  | Initializing_model
  | Model_loaded
  | Ollama_failed exn
  | Failed_to_summarize exn
  | Transcribing_with_whisper
  | Transcribing_audio
  | Transcription_complete
  | Transcription_failed
  | Ffmpeg_failed pystr
  | Generating_summary
  | Summary_header
  | Summary_text pystr
  | Processing_time real
  | Summary_failed
  | Error_text exn

datatype event =
    St_set_page_config
  | St_markdown msg
  | St_expander
  | St_write msg
  | St_text_input
  | St_button
  | St_success msg
  | St_info msg
  | St_error msg
  | St_columns
  | St_video pystr
  | St_header msg
  | Time_time
  | Ydl_download pystr
  | Subprocess_run "pystr list"
  | Whisper_load_model pystr
  | Whisper_transcribe pystr pystr
  | Ollama_chat pystr pystr
  | Os_remove pystr

record world =
  fs :: filesystem
  log :: "event list"

definition emit :: "event \<Rightarrow> world \<Rightarrow> world" where
  "emit e w = w\<lparr>log := log w @ [e]\<rparr>"

text \<open>The events a computation added to the log.\<close>

definition new_events :: "world \<Rightarrow> world \<Rightarrow> event list" where
  "new_events w w' = drop (length (log w)) (log w')"

text \<open>
  The external systems. \<open>ydl_download\<close> is \<open>extract_info\<close> followed by
  \<open>prepare_filename\<close>; \<open>subprocess_run\<close> gives the return code and the captured standard
  error; \<open>whisper_transcribe\<close> takes the model tier and the file and gives the result
  dictionary (its string-valued items) or \<open>None\<close>; \<open>ollama_chat\<close> takes the model name and
  the content of the single user message; \<open>time_time k\<close> is the clock reading of the
  \<open>k\<close>-th call of \<open>time.time()\<close> in a run, floating point read as a real number.
\<close>

record env =
  ydl_download :: "pystr \<Rightarrow> filesystem \<Rightarrow> (exn + pystr) \<times> filesystem"
  subprocess_run :: "pystr list \<Rightarrow> filesystem \<Rightarrow> (exn + int \<times> pystr) \<times> filesystem"
  whisper_load_model :: "pystr \<Rightarrow> exn + unit"
  whisper_transcribe :: "pystr \<Rightarrow> pystr \<Rightarrow> filesystem \<Rightarrow> exn + (pystr \<times> pystr) list option"
  ollama_chat :: "pystr \<Rightarrow> pystr \<Rightarrow> exn + pyval"
  time_time :: "nat \<Rightarrow> real"

text \<open>The state of the two input widgets in one script run.\<close>

record ui =
  button_summarize :: bool
  text_input_url :: pystr

subsection \<open>File system primitives\<close>

definition os_path_exists :: "filesystem \<Rightarrow> pystr \<Rightarrow> bool" where
  "os_path_exists f p \<longleftrightarrow> f p \<noteq> None"

text \<open>
  \<open>os.remove(p)\<close>: deletes a regular file, raises on a missing path and on a directory.
\<close>

definition os_remove :: "pystr \<Rightarrow> world \<Rightarrow> (exn + unit) \<times> world" where
  "os_remove p w =
     (let w1 = emit (Os_remove p) w in
      case fs w1 p of
        None \<Rightarrow> (Inl (FileNotFoundError p), w1)
      | Some Dir \<Rightarrow> (Inl (IsADirectoryError p), w1)
      | Some File \<Rightarrow> (Inr (), w1\<lparr>fs := (fs w1)(p := None)\<rparr>))"

subsection \<open>The functions of Semisizer.py\<close>

definition download_video :: "env \<Rightarrow> pystr \<Rightarrow> world \<Rightarrow> (exn + pystr) \<times> world" where
  "download_video env url w =
     (let w1 = emit (Ydl_download url) w;
          (file_path, fs') = ydl_download env url (fs w1)
      in (file_path, w1\<lparr>fs := fs'\<rparr>))"

definition ffmpeg_command :: "pystr \<Rightarrow> pystr \<Rightarrow> pystr list" where
  "ffmpeg_command input_path output_path =
     [ascii ''ffmpeg'', ascii ''-i'', input_path, ascii ''-ac'', ascii ''1'',
      ascii ''-ar'', ascii ''16000'', output_path, ascii ''-y'']"

definition convert_audio :: "env \<Rightarrow> pystr \<Rightarrow> world \<Rightarrow> (exn + pystr) \<times> world" where
  "convert_audio env input_path w =
     (let output_path = ascii ''converted_audio.wav'';
          command = ffmpeg_command input_path output_path;
          w1 = emit (Subprocess_run command) w
      in case subprocess_run env command (fs w1) of
           (Inl e, fs') \<Rightarrow> (Inl e, w1\<lparr>fs := fs'\<rparr>)
         | (Inr (returncode, stderr), fs') \<Rightarrow>
             (let w2 = w1\<lparr>fs := fs'\<rparr> in
              if returncode \<noteq> 0
              then (Inl (RuntimeError (ascii ''FFmpeg conversion failed'')),
                    emit (St_error (Ffmpeg_failed stderr)) w2)
              else (Inr output_path, w2)))"

definition initialize_model :: "env \<Rightarrow> world \<Rightarrow> (exn + pystr option) \<times> world" where
  "initialize_model env w =
     (let model_name = ascii ''llama3.2:latest'';
          w1 = emit (Ollama_chat model_name (ascii ''Hello!'')) w
      in case ollama_chat env model_name (ascii ''Hello!'') of
           Inr response \<Rightarrow>
             (Inr (Some model_name),
              if truthy response then emit (St_success Model_loaded) w1 else w1)
         | Inl e \<Rightarrow> (Inr None, emit (St_error (Ollama_failed e)) w1))"

text \<open>
  The expression \<open>response.get("message", {}).get("content", "").strip()\<close>, which raises
  where a receiver has no such method.
\<close>

definition message_content :: "pyval \<Rightarrow> exn + pystr" where
  "message_content response =
     (case py_get response (ascii ''message'') (PDict []) of
        Inl e \<Rightarrow> Inl e
      | Inr message \<Rightarrow>
          (case py_get message (ascii ''content'') (PStr []) of
             Inl e \<Rightarrow> Inl e
           | Inr content \<Rightarrow> py_strip content))"

definition summarize_text ::
  "env \<Rightarrow> pystr option \<Rightarrow> pystr \<Rightarrow> world \<Rightarrow> (exn + pystr option) \<times> world" where
  "summarize_text env text model w =
     (let content = ascii ''Summarize this: '' @ format_field text;
          w1 = emit (Ollama_chat model content) w
      in case (case ollama_chat env model content of
                 Inl e \<Rightarrow> Inl e
               | Inr response \<Rightarrow> message_content response) of
           Inr summary \<Rightarrow> (Inr (Some summary), w1)
         | Inl e \<Rightarrow> (Inr None, emit (St_error (Failed_to_summarize e)) w1))"

definition transcribe_audio :: "env \<Rightarrow> pystr \<Rightarrow> world \<Rightarrow> (exn + pystr option) \<times> world" where
  "transcribe_audio env file_path w =
     (let w1 = emit (St_success Transcribing_with_whisper) w in
      case (if \<not> endswith file_path (ascii ''.wav'')
            then convert_audio env file_path w1
            else (Inr file_path, w1)) of
        (Inl e, w2) \<Rightarrow> (Inl e, w2)
      | (Inr file_path', w2) \<Rightarrow>
          (let w3 = emit (Whisper_load_model (ascii ''small'')) w2 in
           case whisper_load_model env (ascii ''small'') of
             Inl e \<Rightarrow> (Inl e, w3)
           | Inr model \<Rightarrow>
               (let w4 = emit (Whisper_transcribe (ascii ''small'') file_path') w3 in
                case whisper_transcribe env (ascii ''small'') file_path' (fs w4) of
                  Inl e \<Rightarrow> (Inl e, w4)
                | Inr result \<Rightarrow>
                    (case result of
                       Some items \<Rightarrow>
                         (if items \<noteq> [] \<and> map_of items (ascii ''text'') \<noteq> None
                          then (Inr (map_of items (ascii ''text'')),
                                emit (St_success Transcription_complete) w4)
                          else (Inr None, emit (St_error Transcription_failed) w4))
                     | None \<Rightarrow> (Inr None, emit (St_error Transcription_failed) w4)))))"

definition set_background :: "pystr \<Rightarrow> world \<Rightarrow> world" where
  "set_background image_url w = emit (St_markdown (Background_css image_url)) w"

text \<open>The loop of \<open>cleanup_files\<close> over the list of names.\<close>

fun cleanup_loop :: "pystr list \<Rightarrow> world \<Rightarrow> (exn + unit) \<times> world" where
  "cleanup_loop [] w = (Inr (), w)"
| "cleanup_loop (file # files) w =
     (if os_path_exists (fs w) file
      then (case os_remove file w of
              (Inl e, w1) \<Rightarrow> (Inl e, w1)
            | (Inr u, w1) \<Rightarrow> cleanup_loop files w1)
      else cleanup_loop files w)"

definition cleanup_files :: "world \<Rightarrow> (exn + unit) \<times> world" where
  "cleanup_files w =
     cleanup_loop [ascii ''downloaded_audio.mp3'', ascii ''converted_audio.wav''] w"

definition delete_file :: "pystr \<Rightarrow> world \<Rightarrow> (exn + unit) \<times> world" where
  "delete_file file_path w =
     (if os_path_exists (fs w) file_path then os_remove file_path w else (Inr (), w))"

text \<open>
  \<open>main\<close> returns \<open>None\<close> on every path; the model's result names the path taken: the
  trigger condition was false, one of the two early returns, the end of the try block, or
  the exception handler.
\<close>

datatype outcome =
    Not_triggered
  | Halted_no_model
  | Halted_no_transcript
  | Done
  | Aborted exn

text \<open>The body of the try block of \<open>main\<close>.\<close>

definition main_try :: "env \<Rightarrow> pystr \<Rightarrow> real \<Rightarrow> world \<Rightarrow> (exn + outcome) \<times> world" where
  "main_try env youtube_url start_time w =
     (case download_video env youtube_url (emit (St_success Downloading_audio) w) of
        (Inl e, w1) \<Rightarrow> (Inl e, w1)
      | (Inr file_path, w1) \<Rightarrow>
     (case initialize_model env (emit (St_info Initializing_model) w1) of
        (Inl e, w2) \<Rightarrow> (Inl e, w2)
      | (Inr None, w2) \<Rightarrow> (Inr Halted_no_model, w2)
      | (Inr (Some model), w2) \<Rightarrow>
     if model = [] then (Inr Halted_no_model, w2) else
     (case transcribe_audio env file_path (emit (St_info Transcribing_audio) w2) of
        (Inl e, w3) \<Rightarrow> (Inl e, w3)
      | (Inr transcription, w3) \<Rightarrow>
     if \<not> truthy_opt transcription then (Inr Halted_no_transcript, w3) else
     (case summarize_text env transcription model (emit (St_info Generating_summary) w3) of
        (Inl e, w4) \<Rightarrow> (Inl e, w4)
      | (Inr summary, w4) \<Rightarrow>
     (let w5 = emit Time_time w4;
          end_time = time_time env 1;
          elapsed_time = end_time - start_time;
          w6 = emit (St_header Summary_header)
                 (emit (St_video youtube_url) (emit St_columns w5));
          w7 = (if truthy_opt summary
                then emit (St_write (Processing_time elapsed_time))
                       (emit (St_success (Summary_text (format_field summary))) w6)
                else emit (St_error Summary_failed) w6)
      in case cleanup_files w7 of
           (Inl e, w8) \<Rightarrow> (Inl e, w8)
         | (Inr u, w8) \<Rightarrow> (Inr Done, w8))))))"

definition background_url :: pystr where
  "background_url = ascii (''https://static.vecteezy.com/system/resources/previews/027/570/055/non_2x/'' @
     ''sunset-in-the-sea-black-and-white-chill-lo-fi-background-bay-paradise-island-outline-2d-'' @
     ''cartoon-landscape-illustration-monochromatic-lofi-wallpaper-desktop-bw-90s-retro-art-vector.jpg'')"

definition main :: "env \<Rightarrow> ui \<Rightarrow> world \<Rightarrow> (exn + outcome) \<times> world" where
  "main env u w =
     (let w1 = set_background background_url w;
          w2 = emit (St_markdown Subtitle_html) (emit (St_markdown Title_html) w1);
          w3 = emit (St_write About_enter_url) (emit (St_write About_extracts) (emit St_expander w2));
          w4 = emit St_text_input w3;
          youtube_url = text_input_url u;
          w5 = emit St_button w4
      in if button_summarize u \<and> youtube_url \<noteq> []
         then (let w6 = emit Time_time w5;
                   start_time = time_time env 0
               in case main_try env youtube_url start_time w6 of
                    (Inr out, w7) \<Rightarrow> (Inr out, w7)
                  | (Inl e, w7) \<Rightarrow> (Inr (Aborted e), emit (St_error (Error_text e)) w7))
         else (Inr Not_triggered, w5))"


subsection \<open>Observations on traces\<close>

fun is_subprocess :: "event \<Rightarrow> bool" where
  "is_subprocess (Subprocess_run c) = True"
| "is_subprocess e = False"

text \<open>A world with no files and nothing logged.\<close>

definition w_empty :: world where
  "w_empty = \<lparr>fs = (\<lambda>p. None), log = []\<rparr>"

text \<open>
  The events of the page set-up at the top of \<open>main\<close>, and the events a transcription
  step can add.
\<close>

definition page_events :: "event list" where
  "page_events =
     [St_markdown (Background_css background_url), St_markdown Title_html,
      St_markdown Subtitle_html, St_expander, St_write About_extracts,
      St_write About_enter_url, St_text_input, St_button]"

definition transcription_events :: "event set" where
  "transcription_events =
     {St_success Transcribing_with_whisper, St_success Transcription_complete,
      St_error Transcription_failed}
     \<union> range Subprocess_run \<union> range (\<lambda>x. St_error (Ffmpeg_failed x))
     \<union> range Whisper_load_model \<union> range (\<lambda>(x, y). Whisper_transcribe x y)"

subsection \<open>Concrete environments\<close>

text \<open>
  A run in which every external system answers: the download stores a WebM file, the
  conversion writes the waveform file, the speech model hears a short sentence and the
  language model answers with a padded summary; seven seconds pass between the two clock
  readings.
\<close>

definition resp_ok :: pyval where
  "resp_ok = PDict [(ascii ''message'',
      PDict [(ascii ''role'', PStr (ascii ''assistant'')),
             (ascii ''content'', PStr (ascii '' A short talk. ''))])]"

definition env_ok :: env where
  "env_ok =
     \<lparr>ydl_download = (\<lambda>url f. (Inr (ascii ''downloaded_audio.webm''),
                                 f(ascii ''downloaded_audio.webm'' \<mapsto> File))),
      subprocess_run = (\<lambda>cmd f. (Inr (0, []), f(ascii ''converted_audio.wav'' \<mapsto> File))),
      whisper_load_model = (\<lambda>tier. Inr ()),
      whisper_transcribe = (\<lambda>tier p f.
         Inr (Some [(ascii ''text'', ascii '' hello there''), (ascii ''language'', ascii ''en'')])),
      ollama_chat = (\<lambda>m c. Inr resp_ok),
      time_time = (\<lambda>k. if k = 0 then 100 else 107)\<rparr>"



definition ui_go :: ui where
  "ui_go = \<lparr>button_summarize = True, text_input_url = ascii ''https://youtu.be/abc''\<rparr>"


definition env_llm_down :: env where
  "env_llm_down = env_ok\<lparr>ollama_chat :=
     (\<lambda>m c. Inl (OtherException (ascii ''connection refused'')))\<rparr>"

definition env_ffmpeg_fails :: env where
  "env_ffmpeg_fails = env_ok\<lparr>subprocess_run :=
     (\<lambda>cmd f. (Inr (1, ascii ''Invalid data found''), f))\<rparr>"

definition env_silent :: env where
  "env_silent = env_ok\<lparr>whisper_transcribe :=
     (\<lambda>tier p f. Inr (Some [(ascii ''text'', []), (ascii ''language'', ascii ''en'')]))\<rparr>"


definition w_downloaded :: world where
  "w_downloaded = \<lparr>fs = (\<lambda>p. None)(ascii ''downloaded_audio.webm'' \<mapsto> File), log = []\<rparr>"

section \<open>Basic facts\<close>

lemma ascii_eq_iff [simp]: "ascii s = ascii t \<longleftrightarrow> s = t"
  unfolding ascii_def by (simp add: inj_map_eq_map inj_on_def)

lemma fs_emit [simp]: "fs (emit e w) = fs w"
  by (simp add: emit_def)

lemma log_emit [simp]: "log (emit e w) = log w @ [e]"
  by (simp add: emit_def)

lemma new_events_eq: "log w' = log w @ xs \<Longrightarrow> new_events w w' = xs"
  by (simp add: new_events_def)

subsection \<open>Python's strip\<close>

lemma strip_decomp:
  "\<exists>pre post. s = pre @ strip s @ post \<and> list_all isspace pre \<and> list_all isspace post"
proof -
  define d where "d = dropWhile isspace s"
  have 1: "s = takeWhile isspace s @ d" by (simp add: d_def)
  have "rev (rev d) = rev (dropWhile isspace (rev d)) @ rev (takeWhile isspace (rev d))"
    by (metis rev_append takeWhile_dropWhile_id)
  then have 2: "d = strip s @ rev (takeWhile isspace (rev d))"
    by (simp add: strip_def d_def)
  have 3: "list_all isspace (takeWhile isspace s)"
    by (simp add: list_all_iff) (meson set_takeWhileD)
  have 4: "list_all isspace (rev (takeWhile isspace (rev d)))"
    by (simp add: list_all_iff) (meson set_takeWhileD)
  from 1 2 have "s = takeWhile isspace s @ strip s @ rev (takeWhile isspace (rev d))" by simp
  with 3 4 show ?thesis by blast
qed

lemma strip_ends:
  assumes "strip s \<noteq> []"
  shows "\<not> isspace (hd (strip s)) \<and> \<not> isspace (last (strip s))"
proof -
  define d where "d = dropWhile isspace s"
  have s: "strip s = rev (dropWhile isspace (rev d))" by (simp add: strip_def d_def)
  with assms have ne: "dropWhile isspace (rev d) \<noteq> []" by simp
  then have "\<not> isspace (hd (dropWhile isspace (rev d)))" by (rule hd_dropWhile)
  then have l: "\<not> isspace (last (strip s))" using ne by (simp add: s last_rev)
  from ne have dne: "d \<noteq> []" by auto
  then have hd: "\<not> isspace (hd d)" unfolding d_def by (rule hd_dropWhile)
  have "rev (rev d) = rev (dropWhile isspace (rev d)) @ rev (takeWhile isspace (rev d))"
    by (metis rev_append takeWhile_dropWhile_id)
  then have "d = strip s @ rev (takeWhile isspace (rev d))" by (simp add: s)
  then have "hd d = hd (strip s)" using assms by (metis hd_append2)
  with hd l show ?thesis by simp
qed

subsection \<open>Deleting files\<close>

lemma os_remove_not_missing:
  "os_path_exists (fs w) p \<Longrightarrow> fst (os_remove p w) \<noteq> Inl (FileNotFoundError q)"
  by (auto simp: os_remove_def os_path_exists_def emit_def Let_def split: option.splits node.splits)

lemma delete_file_fs:
  "fs (snd (delete_file p w)) = (if fs w p = Some File then (fs w)(p := None) else fs w)"
  by (auto simp: delete_file_def os_remove_def os_path_exists_def emit_def Let_def
      split: option.splits node.splits)

lemma cleanup_loop_absent:
  "\<forall>p \<in> set ps. fs w p = None \<Longrightarrow> cleanup_loop ps w = (Inr (), w)"
  by (induction ps arbitrary: w) (auto simp: os_path_exists_def)

lemma cleanup_loop_not_missing:
  "fst (cleanup_loop ps w) \<noteq> Inl (FileNotFoundError q)"
proof (induction ps arbitrary: w)
  case Nil
  show ?case by simp
next
  case (Cons p ps)
  show ?case
  proof (cases "os_path_exists (fs w) p")
    case False
    then show ?thesis using Cons.IH [of w] by simp
  next
    case True
    obtain r w1 where r: "os_remove p w = (r, w1)" by (cases "os_remove p w")
    show ?thesis
    proof (cases r)
      case (Inl e)
      with r True os_remove_not_missing [of w p q] show ?thesis by simp
    next
      case (Inr u)
      with r True Cons.IH [of w1] show ?thesis by simp
    qed
  qed
qed

lemma cleanup_files_fs_cases:
  "fs (snd (cleanup_files w)) =
     (if fs w (ascii ''downloaded_audio.mp3'') = Some File
      then (if fs w (ascii ''converted_audio.wav'') = Some File
            then (fs w)(ascii ''downloaded_audio.mp3'' := None, ascii ''converted_audio.wav'' := None)
            else (fs w)(ascii ''downloaded_audio.mp3'' := None))
      else if fs w (ascii ''downloaded_audio.mp3'') = None \<and> fs w (ascii ''converted_audio.wav'') = Some File
           then (fs w)(ascii ''converted_audio.wav'' := None)
           else fs w)"
  by (auto simp: cleanup_files_def os_remove_def os_path_exists_def emit_def Let_def
      split: option.splits node.splits)

subsection \<open>Conversion inside transcription\<close>

lemma webm_not_wav: "\<not> endswith (ascii ''downloaded_audio.webm'') (ascii ''.wav'')"
  by code_simp

lemma transcribe_no_conversion:
  "endswith file_path (ascii ''.wav'') \<Longrightarrow>
     filter is_subprocess (new_events w (snd (transcribe_audio env file_path w))) = []"
  by (simp add: transcribe_audio_def emit_def Let_def new_events_def
      split: prod.splits sum.splits option.splits)

lemma transcribe_one_conversion:
  "\<not> endswith file_path (ascii ''.wav'') \<Longrightarrow>
        (\<exists>rest. new_events w (snd (transcribe_audio env file_path w)) =
           [St_success Transcribing_with_whisper,
            Subprocess_run (ffmpeg_command file_path (ascii ''converted_audio.wav''))] @ rest
         \<and> filter is_subprocess rest = [])"
  by (simp add: transcribe_audio_def convert_audio_def emit_def Let_def new_events_def
      split: prod.splits sum.splits option.splits)

subsection \<open>Literals\<close>

lemma ascii_eq_Nil [simp]: "ascii s = [] \<longleftrightarrow> s = []" "[] = ascii s \<longleftrightarrow> s = []"
  by (auto simp: ascii_def)


lemma strip_example: "strip (ascii '' A short talk. '') = ascii ''A short talk.''"
  by code_simp

subsection \<open>What each step returns and logs\<close>

lemma download_video_result:
  assumes "download_video env url w = (r, w')"
  shows "r = fst (ydl_download env url (fs w))"
    and "fs w' = snd (ydl_download env url (fs w))"
    and "log w' = log w @ [Ydl_download url]"
  using assms by (auto simp: download_video_def Let_def split: prod.splits)

lemma initialize_model_result:
  assumes "initialize_model env w = (r, w')"
  shows "fs w' = fs w"
    and "r = Inr (case ollama_chat env (ascii ''llama3.2:latest'') (ascii ''Hello!'') of
                   Inl e \<Rightarrow> None | Inr response \<Rightarrow> Some (ascii ''llama3.2:latest''))"
    and "log w' = log w @ Ollama_chat (ascii ''llama3.2:latest'') (ascii ''Hello!'') #
           (case ollama_chat env (ascii ''llama3.2:latest'') (ascii ''Hello!'') of
              Inl e \<Rightarrow> [St_error (Ollama_failed e)]
            | Inr response \<Rightarrow> if truthy response then [St_success Model_loaded] else [])"
  using assms by (auto simp: initialize_model_def Let_def split: sum.splits)

lemma summarize_text_result:
  assumes "summarize_text env text model w = (r, w')"
  shows "fs w' = fs w"
    and "\<exists>s. r = Inr s"
    and "\<exists>tail. log w' = log w @ Ollama_chat model (ascii ''Summarize this: '' @ format_field text) # tail
            \<and> (tail = [] \<or> (\<exists>e. tail = [St_error (Failed_to_summarize e)]))"
  using assms by (auto simp: summarize_text_def Let_def split: sum.splits)

lemma summarize_text_fst_indep:
  "fst (summarize_text env text model w) = fst (summarize_text env text model w')"
  by (simp add: summarize_text_def Let_def split: sum.splits)

lemma convert_audio_log:
  "\<exists>tail. log (snd (convert_audio env p w)) = log w @ tail \<and> set tail \<subseteq> transcription_events"
  by (simp add: convert_audio_def Let_def transcription_events_def split: prod.splits sum.splits)

lemma transcribe_audio_log:
  "\<exists>tail. log (snd (transcribe_audio env p w)) = log w @ tail \<and> set tail \<subseteq> transcription_events"
proof -
  define w1 where "w1 = emit (St_success Transcribing_with_whisper) w"
  define c where "c = (if \<not> endswith p (ascii ''.wav'') then convert_audio env p w1 else (Inr p, w1))"
  have "\<exists>tail. log (snd c) = log w1 @ tail \<and> set tail \<subseteq> transcription_events"
    using convert_audio_log [of env p w1] by (simp add: c_def)
  then obtain t1 where t1: "log (snd c) = log w @ St_success Transcribing_with_whisper # t1"
      "set t1 \<subseteq> transcription_events"
    by (auto simp: w1_def)
  obtain r2 w2 where c: "c = (r2, w2)" by (cases c)
  have eq: "transcribe_audio env p w =
     (case (r2, w2) of (Inl e, w2) \<Rightarrow> (Inl e, w2)
      | (Inr file_path', w2) \<Rightarrow>
          (let w3 = emit (Whisper_load_model (ascii ''small'')) w2 in
           case whisper_load_model env (ascii ''small'') of
             Inl e \<Rightarrow> (Inl e, w3)
           | Inr model \<Rightarrow>
               (let w4 = emit (Whisper_transcribe (ascii ''small'') file_path') w3 in
                case whisper_transcribe env (ascii ''small'') file_path' (fs w4) of
                  Inl e \<Rightarrow> (Inl e, w4)
                | Inr result \<Rightarrow>
                    (case result of
                       Some items \<Rightarrow>
                         (if items \<noteq> [] \<and> map_of items (ascii ''text'') \<noteq> None
                          then (Inr (map_of items (ascii ''text'')),
                                emit (St_success Transcription_complete) w4)
                          else (Inr None, emit (St_error Transcription_failed) w4))
                     | None \<Rightarrow> (Inr None, emit (St_error Transcription_failed) w4)))))"
    unfolding transcribe_audio_def Let_def c [symmetric] c_def w1_def by (rule refl)
  have "St_success Transcribing_with_whisper \<in> transcription_events"
       "St_success Transcription_complete \<in> transcription_events"
       "St_error Transcription_failed \<in> transcription_events"
       "\<And>x. Whisper_load_model x \<in> transcription_events"
       "\<And>x y. Whisper_transcribe x y \<in> transcription_events"
    by (auto simp: transcription_events_def)
  with t1 c show ?thesis
    by (simp add: eq Let_def split: sum.splits option.splits)
qed

lemma transcribe_audio_result:
  assumes "transcribe_audio env p w = (r, w')"
  shows "set (new_events w w') \<subseteq> transcription_events"
  using transcribe_audio_log [of env p w] assms by (auto simp: new_events_def)

lemma transcribe_audio_text:
  assumes "transcribe_audio env p w = (Inr (Some t), w')"
  shows "\<exists>q f items. whisper_transcribe env (ascii ''small'') q f = Inr (Some items)
            \<and> map_of items (ascii ''text'') = Some t"
proof -
  define w1 where "w1 = emit (St_success Transcribing_with_whisper) w"
  define c where "c = (if \<not> endswith p (ascii ''.wav'') then convert_audio env p w1 else (Inr p, w1))"
  obtain r2 w2 where c: "c = (r2, w2)" by (cases c)
  have eq: "transcribe_audio env p w =
     (case (r2, w2) of (Inl e, w2) \<Rightarrow> (Inl e, w2)
      | (Inr file_path', w2) \<Rightarrow>
          (let w3 = emit (Whisper_load_model (ascii ''small'')) w2 in
           case whisper_load_model env (ascii ''small'') of
             Inl e \<Rightarrow> (Inl e, w3)
           | Inr model \<Rightarrow>
               (let w4 = emit (Whisper_transcribe (ascii ''small'') file_path') w3 in
                case whisper_transcribe env (ascii ''small'') file_path' (fs w4) of
                  Inl e \<Rightarrow> (Inl e, w4)
                | Inr result \<Rightarrow>
                    (case result of
                       Some items \<Rightarrow>
                         (if items \<noteq> [] \<and> map_of items (ascii ''text'') \<noteq> None
                          then (Inr (map_of items (ascii ''text'')),
                                emit (St_success Transcription_complete) w4)
                          else (Inr None, emit (St_error Transcription_failed) w4))
                     | None \<Rightarrow> (Inr None, emit (St_error Transcription_failed) w4)))))"
    unfolding transcribe_audio_def Let_def c [symmetric] c_def w1_def by (rule refl)
  from assms show ?thesis
    unfolding eq by (auto simp: Let_def split: sum.splits option.splits if_splits)
qed

lemma cleanup_files_result:
  assumes "cleanup_files w = (r, w')"
  shows "set (new_events w w') \<subseteq> range Os_remove"
    and "r = Inr () \<Longrightarrow> fs w' (ascii ''downloaded_audio.mp3'') = None
                       \<and> fs w' (ascii ''converted_audio.wav'') = None"
    and "r \<noteq> Inr () \<Longrightarrow> fs w' (ascii ''downloaded_audio.mp3'') = Some Dir
                       \<or> fs w' (ascii ''converted_audio.wav'') = Some Dir"
  using assms
  by (auto simp: cleanup_files_def os_remove_def os_path_exists_def emit_def Let_def new_events_def
      split: option.splits node.splits if_splits)

lemma cleanup_files_log:
  "\<exists>tail. log (snd (cleanup_files w)) = log w @ tail"
  by (simp add: cleanup_files_def os_remove_def os_path_exists_def emit_def Let_def
      split: option.splits node.splits)

lemma new_events_snd:
  "f = (r, w') \<Longrightarrow> \<exists>tail. log (snd f) = log w @ tail \<Longrightarrow> log w' = log w @ new_events w w'"
  by (auto simp: new_events_def)




lemma error_text_distinct [simp]:
  "St_error (Error_text e) \<noteq> St_error Summary_failed"
  "St_error Summary_failed \<noteq> St_error (Error_text e)"
  by simp_all


subsection \<open>The paths through main\<close>

text \<open>
  Every run of \<open>main\<close> takes one of six paths; each case gives the result, the events
  added and the file system left behind.
\<close>

lemma main_cases [consumes 0, case_names idle download_raised no_model transcribe_raised no_transcript summarized]:
  obtains
    (idle) w' where
      "\<not> (button_summarize u \<and> text_input_url u \<noteq> [])"
      "main env u w = (Inr Not_triggered, w')"
      "log w' = log w @ page_events"
      "fs w' = fs w"
  | (download_raised) e w' where
      "button_summarize u" "text_input_url u \<noteq> []"
      "fst (ydl_download env (text_input_url u) (fs w)) = Inl e"
      "main env u w = (Inr (Aborted e), w')"
      "log w' = log w @ page_events @
         [Time_time, St_success Downloading_audio, Ydl_download (text_input_url u),
          St_error (Error_text e)]"
      "fs w' = snd (ydl_download env (text_input_url u) (fs w))"
  | (no_model) p e w' where
      "button_summarize u" "text_input_url u \<noteq> []"
      "fst (ydl_download env (text_input_url u) (fs w)) = Inr p"
      "ollama_chat env (ascii ''llama3.2:latest'') (ascii ''Hello!'') = Inl e"
      "main env u w = (Inr Halted_no_model, w')"
      "log w' = log w @ page_events @
         [Time_time, St_success Downloading_audio, Ydl_download (text_input_url u),
          St_info Initializing_model,
          Ollama_chat (ascii ''llama3.2:latest'') (ascii ''Hello!''),
          St_error (Ollama_failed e)]"
      "fs w' = snd (ydl_download env (text_input_url u) (fs w))"
  | (transcribe_raised) p response e wI wT w' where
      "button_summarize u" "text_input_url u \<noteq> []"
      "fst (ydl_download env (text_input_url u) (fs w)) = Inr p"
      "ollama_chat env (ascii ''llama3.2:latest'') (ascii ''Hello!'') = Inr response"
      "fs wI = snd (ydl_download env (text_input_url u) (fs w))"
      "transcribe_audio env p wI = (Inl e, wT)"
      "main env u w = (Inr (Aborted e), w')"
      "log w' = log w @ page_events @
         [Time_time, St_success Downloading_audio, Ydl_download (text_input_url u),
          St_info Initializing_model,
          Ollama_chat (ascii ''llama3.2:latest'') (ascii ''Hello!'')] @
         (if truthy response then [St_success Model_loaded] else []) @
         [St_info Transcribing_audio] @ new_events wI wT @ [St_error (Error_text e)]"
      "fs w' = fs wT"
  | (no_transcript) p response t wI wT w' where
      "button_summarize u" "text_input_url u \<noteq> []"
      "fst (ydl_download env (text_input_url u) (fs w)) = Inr p"
      "ollama_chat env (ascii ''llama3.2:latest'') (ascii ''Hello!'') = Inr response"
      "fs wI = snd (ydl_download env (text_input_url u) (fs w))"
      "transcribe_audio env p wI = (Inr t, wT)" "\<not> truthy_opt t"
      "main env u w = (Inr Halted_no_transcript, w')"
      "log w' = log w @ page_events @
         [Time_time, St_success Downloading_audio, Ydl_download (text_input_url u),
          St_info Initializing_model,
          Ollama_chat (ascii ''llama3.2:latest'') (ascii ''Hello!'')] @
         (if truthy response then [St_success Model_loaded] else []) @
         [St_info Transcribing_audio] @ new_events wI wT"
      "fs w' = fs wT"
  | (summarized) p response t wI wT s tail wR rC wC w' where
      "button_summarize u" "text_input_url u \<noteq> []"
      "fst (ydl_download env (text_input_url u) (fs w)) = Inr p"
      "ollama_chat env (ascii ''llama3.2:latest'') (ascii ''Hello!'') = Inr response"
      "fs wI = snd (ydl_download env (text_input_url u) (fs w))"
      "transcribe_audio env p wI = (Inr (Some t), wT)" "t \<noteq> []"
      "fst (summarize_text env (Some t) (ascii ''llama3.2:latest'') wT) = Inr s"
      "tail = [] \<or> (\<exists>e. tail = [St_error (Failed_to_summarize e)])"
      "fs wR = fs wT"
      "cleanup_files wR = (rC, wC)"
      "main env u w = (Inr (case rC of Inl e \<Rightarrow> Aborted e | Inr x \<Rightarrow> Done), w')"
      "fs w' = fs wC"
      "log w' = log w @ page_events @
         [Time_time, St_success Downloading_audio, Ydl_download (text_input_url u),
          St_info Initializing_model,
          Ollama_chat (ascii ''llama3.2:latest'') (ascii ''Hello!'')] @
         (if truthy response then [St_success Model_loaded] else []) @
         [St_info Transcribing_audio] @ new_events wI wT @
         [St_info Generating_summary,
          Ollama_chat (ascii ''llama3.2:latest'') (ascii ''Summarize this: '' @ t)] @ tail @
         [Time_time, St_columns, St_video (text_input_url u), St_header Summary_header] @
         (if truthy_opt s
          then [St_success (Summary_text (format_field s)),
                St_write (Processing_time (time_time env 1 - time_time env 0))]
          else [St_error Summary_failed]) @
         new_events wR wC @
         (case rC of Inl e \<Rightarrow> [St_error (Error_text e)] | Inr x \<Rightarrow> [])"
proof -
  define url where "url = text_input_url u"
  define Wp where "Wp = emit St_button (emit St_text_input (emit (St_write About_enter_url)
     (emit (St_write About_extracts) (emit St_expander (emit (St_markdown Subtitle_html)
     (emit (St_markdown Title_html) (set_background background_url w)))))))"
  have Wp: "fs Wp = fs w" "log Wp = log w @ page_events"
    by (simp_all add: Wp_def set_background_def page_events_def)
  have main_idle: "main env u w = (Inr Not_triggered, Wp)"
    if "\<not> (button_summarize u \<and> url \<noteq> [])"
    using that unfolding main_def Let_def Wp_def url_def by auto
  have main_run: "main env u w =
      (case main_try env url (time_time env 0) (emit Time_time Wp) of
         (Inr out, w7) \<Rightarrow> (Inr out, w7)
       | (Inl e, w7) \<Rightarrow> (Inr (Aborted e), emit (St_error (Error_text e)) w7))"
    if "button_summarize u \<and> url \<noteq> []"
    using that unfolding main_def Let_def Wp_def url_def by simp
  show thesis
  proof (cases "button_summarize u \<and> url \<noteq> []")
    case False
    show thesis
      by (rule idle [where w' = Wp]) (use False main_idle Wp in \<open>simp_all add: url_def\<close>)
  next
    case True
    note trig = True
    define W0 where "W0 = emit Time_time Wp"
    define W1 where "W1 = emit (St_success Downloading_audio) W0"
    have W1: "fs W1 = fs w"
      "log W1 = log w @ page_events @ [Time_time, St_success Downloading_audio]"
      by (simp_all add: W1_def W0_def Wp)
    have run: "main env u w =
      (case main_try env url (time_time env 0) W0 of
         (Inr out, w7) \<Rightarrow> (Inr out, w7)
       | (Inl e, w7) \<Rightarrow> (Inr (Aborted e), emit (St_error (Error_text e)) w7))"
      using main_run [OF True] by (simp add: W0_def)
    obtain rD wD where D: "download_video env url W1 = (rD, wD)"
      by (cases "download_video env url W1")
    have rD: "rD = fst (ydl_download env url (fs w))"
      and fsD: "fs wD = snd (ydl_download env url (fs w))"
      and logD: "log wD = log w @ page_events @
                   [Time_time, St_success Downloading_audio, Ydl_download url]"
      using download_video_result [OF D] W1 by simp_all
    show thesis
    proof (cases rD)
      case (Inl e)
      have "main_try env url (time_time env 0) W0 = (Inl e, wD)"
        using D Inl by (simp add: main_try_def W1_def)
      then have m: "main env u w = (Inr (Aborted e), emit (St_error (Error_text e)) wD)"
        by (simp add: run)
      show thesis
        by (rule download_raised [where e = e and w' = "emit (St_error (Error_text e)) wD"])
           (use trig Inl rD fsD logD m in \<open>simp_all add: url_def\<close>)
    next
      case (Inr p)
      define W2 where "W2 = emit (St_info Initializing_model) wD"
      obtain rI wI where I: "initialize_model env W2 = (rI, wI)"
        by (cases "initialize_model env W2")
      have fsI: "fs wI = snd (ydl_download env url (fs w))"
        using initialize_model_result(1) [OF I] fsD by (simp add: W2_def)
      note rI = initialize_model_result(2) [OF I]
      have logI: "log wI = log w @ page_events @
           [Time_time, St_success Downloading_audio, Ydl_download url,
            St_info Initializing_model,
            Ollama_chat (ascii ''llama3.2:latest'') (ascii ''Hello!'')] @
           (case ollama_chat env (ascii ''llama3.2:latest'') (ascii ''Hello!'') of
              Inl e \<Rightarrow> [St_error (Ollama_failed e)]
            | Inr response \<Rightarrow> if truthy response then [St_success Model_loaded] else [])"
        using initialize_model_result(3) [OF I] logD by (simp add: W2_def)
      show thesis
      proof (cases "ollama_chat env (ascii ''llama3.2:latest'') (ascii ''Hello!'')")
        case (Inl e)
        have "main_try env url (time_time env 0) W0 = (Inr Halted_no_model, wI)"
          using D Inr I rI Inl by (simp add: main_try_def W1_def W2_def)
        then have m: "main env u w = (Inr Halted_no_model, wI)"
          by (simp add: run)
        show thesis
          by (rule no_model [where p = p and e = e and w' = wI])
             (use trig Inr Inl rD fsI logI m in \<open>simp_all add: url_def\<close>)
      next
        case response: (Inr response)
        have rI': "rI = Inr (Some (ascii ''llama3.2:latest''))"
          using rI response by simp
        have model_ne: "ascii ''llama3.2:latest'' \<noteq> []"
          by (simp add: ascii_def)
        define W3 where "W3 = emit (St_info Transcribing_audio) wI"
        have W3: "fs W3 = snd (ydl_download env url (fs w))"
          "log W3 = log w @ page_events @
             [Time_time, St_success Downloading_audio, Ydl_download url,
              St_info Initializing_model,
              Ollama_chat (ascii ''llama3.2:latest'') (ascii ''Hello!'')] @
             (if truthy response then [St_success Model_loaded] else []) @
             [St_info Transcribing_audio]"
          using fsI logI response by (simp_all add: W3_def)
        obtain rT wT where T: "transcribe_audio env p W3 = (rT, wT)"
          by (cases "transcribe_audio env p W3")
        have logT: "log wT = log W3 @ new_events W3 wT"
          by (rule new_events_snd [OF T]) (use transcribe_audio_log [of env p W3] in blast)
        have try_T: "main_try env url (time_time env 0) W0 =
            (case (rT, wT) of
               (Inl e, w3) \<Rightarrow> (Inl e, w3)
             | (Inr transcription, w3) \<Rightarrow>
                 if \<not> truthy_opt transcription then (Inr Halted_no_transcript, w3) else
                 (case summarize_text env transcription (ascii ''llama3.2:latest'')
                         (emit (St_info Generating_summary) w3) of
                    (Inl e, w4) \<Rightarrow> (Inl e, w4)
                  | (Inr summary, w4) \<Rightarrow>
                 (let w5 = emit Time_time w4;
                      end_time = time_time env 1;
                      elapsed_time = end_time - time_time env 0;
                      w6 = emit (St_header Summary_header)
                             (emit (St_video url) (emit St_columns w5));
                      w7 = (if truthy_opt summary
                            then emit (St_write (Processing_time elapsed_time))
                                   (emit (St_success (Summary_text (format_field summary))) w6)
                            else emit (St_error Summary_failed) w6)
                  in case cleanup_files w7 of
                       (Inl e, w8) \<Rightarrow> (Inl e, w8)
                     | (Inr u, w8) \<Rightarrow> (Inr Done, w8))))"
          using D Inr I rI' model_ne T
          by (simp add: main_try_def W1_def [symmetric] W2_def [symmetric] W3_def [symmetric])
        show thesis
        proof (cases rT)
          case (Inl e)
          have m: "main env u w = (Inr (Aborted e), emit (St_error (Error_text e)) wT)"
            using try_T Inl by (simp add: run)
          show thesis
            by (rule transcribe_raised [where p = p and response = response and e = e and wI = W3 and wT = wT and w' = "emit (St_error (Error_text e)) wT"])
               (use trig Inr Inl response rD W3 T logT m in \<open>simp_all add: url_def\<close>)
        next
          case t: (Inr t)
          show thesis
          proof (cases "truthy_opt t")
            case False
            have m: "main env u w = (Inr Halted_no_transcript, wT)"
              using try_T t False by (simp add: run)
            show thesis
              by (rule no_transcript [where p = p and response = response and wI = W3 and t = t and wT = wT and w' = wT])
                 (use trig Inr t False response rD W3 T logT m in \<open>simp_all add: url_def\<close>)
          next
            case truthy: True
            then obtain tx where tx: "t = Some tx" "tx \<noteq> []"
              by (cases t) simp_all
            define W4 where "W4 = emit (St_info Generating_summary) wT"
            obtain rS wS where S: "summarize_text env (Some tx) (ascii ''llama3.2:latest'') W4 = (rS, wS)"
              by (cases "summarize_text env (Some tx) (ascii ''llama3.2:latest'') W4")
            from summarize_text_result(2) [OF S] obtain s where s: "rS = Inr s" by blast
            from summarize_text_result(3) [OF S] obtain tail where
              tail: "log wS = log W4 @
                 Ollama_chat (ascii ''llama3.2:latest'') (ascii ''Summarize this: '' @ tx) # tail"
                "tail = [] \<or> (\<exists>e. tail = [St_error (Failed_to_summarize e)])"
              by auto
            have fsS: "fs wS = fs wT"
              using summarize_text_result(1) [OF S] by (simp add: W4_def)
            have sfst: "fst (summarize_text env (Some tx) (ascii ''llama3.2:latest'') wT) = Inr s"
              using summarize_text_fst_indep [of env "Some tx" "ascii ''llama3.2:latest''" wT W4] S s
              by simp
            define wR where "wR =
               (if truthy_opt s
                then emit (St_write (Processing_time (time_time env 1 - time_time env 0)))
                       (emit (St_success (Summary_text (format_field s)))
                          (emit (St_header Summary_header)
                             (emit (St_video url) (emit St_columns (emit Time_time wS)))))
                else emit (St_error Summary_failed)
                       (emit (St_header Summary_header)
                          (emit (St_video url) (emit St_columns (emit Time_time wS)))))"
            have wR: "fs wR = fs wT"
              "log wR = log wS @ [Time_time, St_columns, St_video url, St_header Summary_header] @
                 (if truthy_opt s
                  then [St_success (Summary_text (format_field s)),
                        St_write (Processing_time (time_time env 1 - time_time env 0))]
                  else [St_error Summary_failed])"
              by (simp_all add: wR_def fsS)
            obtain rC wC where C: "cleanup_files wR = (rC, wC)"
              by (cases "cleanup_files wR")
            have logC: "log wC = log wR @ new_events wR wC"
              by (rule new_events_snd [OF C]) (rule cleanup_files_log)
            have try_S: "main_try env url (time_time env 0) W0 =
                (case rC of Inl e \<Rightarrow> (Inl e, wC) | Inr x \<Rightarrow> (Inr Done, wC))"
            proof (cases "truthy_opt s")
              case True
              with try_T t tx S s C show ?thesis
                by (simp add: W4_def [symmetric] Let_def wR_def split: sum.splits)
            next
              case False
              with try_T t tx S s C show ?thesis
                by (simp add: W4_def [symmetric] Let_def wR_def split: sum.splits)
            qed
            define w' where "w' = (case rC of Inl e \<Rightarrow> emit (St_error (Error_text e)) wC | Inr x \<Rightarrow> wC)"
            have m: "main env u w = (Inr (case rC of Inl e \<Rightarrow> Aborted e | Inr x \<Rightarrow> Done), w')"
              using try_S by (simp add: run w'_def split: sum.splits)
            have fs': "fs w' = fs wC"
              by (simp add: w'_def split: sum.splits)
            have log': "log w' = log wC @ (case rC of Inl e \<Rightarrow> [St_error (Error_text e)] | Inr x \<Rightarrow> [])"
              by (simp add: w'_def split: sum.splits)
            show thesis
              by (rule summarized [where p = p and response = response and wI = W3 and t = tx and wT = wT and s = s and tail = tail and wR = wR and rC = rC and wC = wC and w' = w'])
                 (use trig Inr response rD W3 T t tx sfst tail wR C m fs' log' logC logT
                   in \<open>simp_all add: url_def W4_def\<close>)
          qed
        qed
      qed
    qed
  qed
qed

lemma main_events:
  assumes "main env u w = (r, w')" "log w' = log w @ L"
  shows "new_events w (snd (main env u w)) = L" "fst (main env u w) = r"
    "fs (snd (main env u w)) = fs w'"
  using assms by (simp_all add: new_events_def)

lemma not_transcription_events [simp]:
  "Ollama_chat m c \<notin> transcription_events"
  "St_info x \<notin> transcription_events"
  "St_header x \<notin> transcription_events"
  "St_write x \<notin> transcription_events"
  "Time_time \<notin> transcription_events"
  "St_success (Summary_text y) \<notin> transcription_events"
  "St_error Summary_failed \<notin> transcription_events"
  "Os_remove z \<notin> transcription_events"
  by (auto simp: transcription_events_def)

lemma not_page_events [simp]:
  "Ollama_chat m c \<notin> set page_events"
  "St_info x \<notin> set page_events"
  "St_header x \<notin> set page_events"
  "St_success x \<notin> set page_events"
  "St_error x \<notin> set page_events"
  "Time_time \<notin> set page_events"
  "Subprocess_run cmd \<notin> set page_events"
  "Whisper_load_model tier \<notin> set page_events"
  "Whisper_transcribe tier q \<notin> set page_events"
  "St_write (Processing_time d) \<notin> set page_events"
  "Os_remove z \<notin> set page_events"
  by (simp_all add: page_events_def)

lemma range_Os_remove [simp]:
  "Ollama_chat m c \<notin> range Os_remove" "St_info x \<notin> range Os_remove"
  "St_header x \<notin> range Os_remove" "St_write x \<notin> range Os_remove"
  "St_success x \<notin> range Os_remove" "St_error x \<notin> range Os_remove"
  "Time_time \<notin> range Os_remove"
  by auto



subsection \<open>Three concrete runs\<close>





section \<open>The claims\<close>

text \<open>
  C1. Summarization needs a transcript. In every run of \<open>main\<close>, a chat request other
  than the greeting, the status message of the Summarizing step and a displayed summary
  each occur only when \<open>transcribe_audio\<close>, called on the downloaded file, returned a
  string that is not empty, and the request is the fixed prompt followed by that string.
  A triggered run whose download and greeting succeed and whose transcription is the empty
  string takes the early return: the Summarizing step is not reached and the only chat
  request is the greeting.
\<close>

theorem summary_only_for_nonempty_transcript:
  "(\<forall>m c. Ollama_chat m c \<in> set (new_events w (snd (main env u w))) \<and> c \<noteq> ascii ''Hello!''
       \<longrightarrow> (\<exists>t p wI. t \<noteq> [] \<and> c = ascii ''Summarize this: '' @ t
              \<and> fst (ydl_download env (text_input_url u) (fs w)) = Inr p
              \<and> fs wI = snd (ydl_download env (text_input_url u) (fs w))
              \<and> fst (transcribe_audio env p wI) = Inr (Some t)))
   \<and> (St_info Generating_summary \<in> set (new_events w (snd (main env u w)))
        \<or> (\<exists>s. St_success (Summary_text s) \<in> set (new_events w (snd (main env u w))))
       \<longrightarrow> (\<exists>t p wI. t \<noteq> []
              \<and> fst (ydl_download env (text_input_url u) (fs w)) = Inr p
              \<and> fs wI = snd (ydl_download env (text_input_url u) (fs w))
              \<and> fst (transcribe_audio env p wI) = Inr (Some t)))
   \<and> (button_summarize u \<and> text_input_url u \<noteq> []
        \<and> fst (ydl_download env (text_input_url u) (fs w)) = Inr dl
        \<and> ollama_chat env (ascii ''llama3.2:latest'') (ascii ''Hello!'') = Inr greeting
        \<and> (\<forall>wI. fs wI = snd (ydl_download env (text_input_url u) (fs w))
               \<longrightarrow> fst (transcribe_audio env dl wI) = Inr (Some []))
       \<longrightarrow> fst (main env u w) = Inr Halted_no_transcript
          \<and> St_info Generating_summary \<notin> set (new_events w (snd (main env u w)))
          \<and> (\<forall>m c. Ollama_chat m c \<in> set (new_events w (snd (main env u w)))
                \<longrightarrow> c = ascii ''Hello!''))"
proof (cases rule: main_cases [where u = u and env = env and w = w])
  case (idle w')
  note ev = main_events [OF idle(2,3)]
  show ?thesis using idle(1) by (auto simp: ev)
next
  case (download_raised e' w')
  note ev = main_events [OF download_raised(4,5)]
  show ?thesis using download_raised(3) by (simp add: ev)
next
  case (no_model p' e' w')
  note ev = main_events [OF no_model(5,6)]
  show ?thesis using no_model(3,4) by (simp add: ev)
next
  case (transcribe_raised p' response e' wI wT w')
  note ev = main_events [OF transcribe_raised(7,8)]
  note sub = transcribe_audio_result [OF transcribe_raised(6)]
  have T: "fst (transcribe_audio env p' wI) = Inl e'" using transcribe_raised(6) by simp
  show ?thesis using transcribe_raised(3,4,5) sub T by (auto simp: ev)
next
  case (no_transcript p' response t wI wT w')
  note ev = main_events [OF no_transcript(8,9)]
  note sub = transcribe_audio_result [OF no_transcript(6)]
  show ?thesis using no_transcript(3,4,5) sub by (auto simp: ev)
next
  case (summarized p' response t wI wT s tail wR rC wC w')
  note ev = main_events [OF summarized(12,14)]
  note sub = transcribe_audio_result [OF summarized(6)]
  note subC = cleanup_files_result(1) [OF summarized(11)]
  have T: "fst (transcribe_audio env p' wI) = Inr (Some t)" using summarized(6) by simp
  have ex: "\<exists>t p wI. t \<noteq> []
              \<and> fst (ydl_download env (text_input_url u) (fs w)) = Inr p
              \<and> fs wI = snd (ydl_download env (text_input_url u) (fs w))
              \<and> fst (transcribe_audio env p wI) = Inr (Some t)"
    using summarized(3,5,7) T by blast
  have chat: "c = ascii ''Hello!'' \<or> c = ascii ''Summarize this: '' @ t"
    if "Ollama_chat m c \<in> set (new_events w (snd (main env u w)))" for m c
    using that sub subC summarized(9) by (auto simp: ev split: if_splits sum.splits)
  have 1: "\<forall>m c. Ollama_chat m c \<in> set (new_events w (snd (main env u w))) \<and> c \<noteq> ascii ''Hello!''
       \<longrightarrow> (\<exists>t p wI. t \<noteq> [] \<and> c = ascii ''Summarize this: '' @ t
              \<and> fst (ydl_download env (text_input_url u) (fs w)) = Inr p
              \<and> fs wI = snd (ydl_download env (text_input_url u) (fs w))
              \<and> fst (transcribe_audio env p wI) = Inr (Some t))"
    using chat summarized(3,5,7) T by blast
  have 3: "\<not> (fst (ydl_download env (text_input_url u) (fs w)) = Inr dl
        \<and> (\<forall>wI. fs wI = snd (ydl_download env (text_input_url u) (fs w))
               \<longrightarrow> fst (transcribe_audio env dl wI) = Inr (Some [])))"
    using summarized(3,5,7) T by auto
  from 1 ex 3 show ?thesis by blast
qed

theorem summary_only_for_nonempty_transcript_witness:
  "fst (main env_silent ui_go w_empty) = Inr Halted_no_transcript
   \<and> St_info Generating_summary \<notin> set (new_events w_empty (snd (main env_silent ui_go w_empty)))"
proof -
  have h: "button_summarize ui_go \<and> text_input_url ui_go \<noteq> []
        \<and> fst (ydl_download env_silent (text_input_url ui_go) (fs w_empty))
            = Inr (ascii ''downloaded_audio.webm'')
        \<and> ollama_chat env_silent (ascii ''llama3.2:latest'') (ascii ''Hello!'') = Inr resp_ok
        \<and> (\<forall>wI. fs wI = snd (ydl_download env_silent (text_input_url ui_go) (fs w_empty))
               \<longrightarrow> fst (transcribe_audio env_silent (ascii ''downloaded_audio.webm'') wI)
                     = Inr (Some []))"
    by (simp add: transcribe_audio_def convert_audio_def Let_def webm_not_wav
          env_silent_def env_ok_def ui_go_def)
  note t = summary_only_for_nonempty_transcript [where w = w_empty and env = env_silent
      and u = ui_go and dl = "ascii ''downloaded_audio.webm''" and greeting = resp_ok,
      THEN conjunct2, THEN conjunct2, THEN mp, OF h]
  from t [THEN conjunct1] t [THEN conjunct2, THEN conjunct1] show ?thesis by (rule conjI)
qed

text \<open>
  C2. When the conversion subprocess exits with a non-zero code, \<open>convert_audio\<close> shows
  its standard error to the user and raises a RuntimeError; \<open>transcribe_audio\<close> passes
  the error on after the status message, the subprocess call and the error message, so the
  speech model is neither loaded nor run; and a triggered run of \<open>main\<close> that downloads
  such a file ends in the exception handler with exactly the events listed, none of them a
  call of the speech model.
\<close>

theorem conversion_failure_aborts:
  assumes run: "subprocess_run env (ffmpeg_command p (ascii ''converted_audio.wav'')) (fs w)
                  = (Inr (rc, err), f')"
    and rc: "rc \<noteq> 0"
  shows "convert_audio env p w =
           (Inl (RuntimeError (ascii ''FFmpeg conversion failed'')),
            emit (St_error (Ffmpeg_failed err))
              ((emit (Subprocess_run (ffmpeg_command p (ascii ''converted_audio.wav''))) w)\<lparr>fs := f'\<rparr>))
     \<and> (\<not> endswith p (ascii ''.wav'') \<longrightarrow>
          fst (transcribe_audio env p w) = Inl (RuntimeError (ascii ''FFmpeg conversion failed''))
          \<and> new_events w (snd (transcribe_audio env p w)) =
              [St_success Transcribing_with_whisper,
               Subprocess_run (ffmpeg_command p (ascii ''converted_audio.wav'')),
               St_error (Ffmpeg_failed err)])
     \<and> (\<not> endswith p (ascii ''.wav'') \<and> button_summarize u \<and> text_input_url u \<noteq> []
          \<and> ydl_download env (text_input_url u) (fs wm) = (Inr p, fs w)
          \<and> ollama_chat env (ascii ''llama3.2:latest'') (ascii ''Hello!'') = Inr response
        \<longrightarrow> fst (main env u wm) = Inr (Aborted (RuntimeError (ascii ''FFmpeg conversion failed'')))
          \<and> new_events wm (snd (main env u wm)) = page_events @
              [Time_time, St_success Downloading_audio, Ydl_download (text_input_url u),
               St_info Initializing_model,
               Ollama_chat (ascii ''llama3.2:latest'') (ascii ''Hello!'')] @
              (if truthy response then [St_success Model_loaded] else []) @
              [St_info Transcribing_audio, St_success Transcribing_with_whisper,
               Subprocess_run (ffmpeg_command p (ascii ''converted_audio.wav'')),
               St_error (Ffmpeg_failed err),
               St_error (Error_text (RuntimeError (ascii ''FFmpeg conversion failed'')))])"
proof -
  have conv: "convert_audio env p w1 =
           (Inl (RuntimeError (ascii ''FFmpeg conversion failed'')),
            emit (St_error (Ffmpeg_failed err))
              ((emit (Subprocess_run (ffmpeg_command p (ascii ''converted_audio.wav''))) w1)\<lparr>fs := f'\<rparr>))"
    if "fs w1 = fs w" for w1
    using run rc that by (simp add: convert_audio_def Let_def)
  have tr: "transcribe_audio env p w1 =
      (Inl (RuntimeError (ascii ''FFmpeg conversion failed'')),
       emit (St_error (Ffmpeg_failed err))
         ((emit (Subprocess_run (ffmpeg_command p (ascii ''converted_audio.wav'')))
            (emit (St_success Transcribing_with_whisper) w1))\<lparr>fs := f'\<rparr>))"
    if "fs w1 = fs w" "\<not> endswith p (ascii ''.wav'')" for w1
    using that conv [of "emit (St_success Transcribing_with_whisper) w1"]
    by (simp add: transcribe_audio_def Let_def)
  have tr_ev: "new_events w1 (snd (transcribe_audio env p w1)) =
              [St_success Transcribing_with_whisper,
               Subprocess_run (ffmpeg_command p (ascii ''converted_audio.wav'')),
               St_error (Ffmpeg_failed err)]"
    if "fs w1 = fs w" "\<not> endswith p (ascii ''.wav'')" for w1
    by (simp add: tr [OF that] new_events_def)
  have m: "fst (main env u wm) = Inr (Aborted (RuntimeError (ascii ''FFmpeg conversion failed'')))
          \<and> new_events wm (snd (main env u wm)) = page_events @
              [Time_time, St_success Downloading_audio, Ydl_download (text_input_url u),
               St_info Initializing_model,
               Ollama_chat (ascii ''llama3.2:latest'') (ascii ''Hello!'')] @
              (if truthy response then [St_success Model_loaded] else []) @
              [St_info Transcribing_audio, St_success Transcribing_with_whisper,
               Subprocess_run (ffmpeg_command p (ascii ''converted_audio.wav'')),
               St_error (Ffmpeg_failed err),
               St_error (Error_text (RuntimeError (ascii ''FFmpeg conversion failed'')))]"
    if nw: "\<not> endswith p (ascii ''.wav'')" and trig: "button_summarize u" "text_input_url u \<noteq> []"
      and dl: "ydl_download env (text_input_url u) (fs wm) = (Inr p, fs w)"
      and chat: "ollama_chat env (ascii ''llama3.2:latest'') (ascii ''Hello!'') = Inr response"
  proof (cases rule: main_cases [where u = u and env = env and w = wm])
    case (idle w')
    with trig show ?thesis by simp
  next
    case (download_raised e' w')
    with dl show ?thesis by simp
  next
    case (no_model p' e' w')
    with chat show ?thesis by simp
  next
    case (transcribe_raised p' response' e' wI wT w')
    note ev = main_events [OF transcribe_raised(7,8)]
    have p': "p' = p" "response' = response" "fs wI = fs w"
      using transcribe_raised(3,4,5) dl chat by simp_all
    have "e' = RuntimeError (ascii ''FFmpeg conversion failed'')"
      using transcribe_raised(6) tr [OF p'(3) nw] p' by simp
    moreover have "new_events wI wT = [St_success Transcribing_with_whisper,
               Subprocess_run (ffmpeg_command p (ascii ''converted_audio.wav'')),
               St_error (Ffmpeg_failed err)]"
      using transcribe_raised(6) tr_ev [OF p'(3) nw] p' by simp
    ultimately show ?thesis using p' by (simp add: ev)
  next
    case (no_transcript p' response' t wI wT w')
    have p': "p' = p" "fs wI = fs w"
      using no_transcript(3,5) dl by simp_all
    show ?thesis using no_transcript(6) tr [OF p'(2) nw] p' by simp
  next
    case (summarized p' response' t wI wT s tail wR rC wC w')
    have p': "p' = p" "fs wI = fs w"
      using summarized(3,5) dl by simp_all
    show ?thesis using summarized(6) tr [OF p'(2) nw] p' by simp
  qed
  show ?thesis
    using conv [of w] tr [of w] tr_ev [of w] m by simp
qed

theorem conversion_failure_aborts_witness:
  "subprocess_run env_ffmpeg_fails
       (ffmpeg_command (ascii ''downloaded_audio.webm'') (ascii ''converted_audio.wav''))
       (fs w_downloaded) = (Inr (1, ascii ''Invalid data found''), fs w_downloaded)
   \<and> fst (convert_audio env_ffmpeg_fails (ascii ''downloaded_audio.webm'') w_downloaded)
       = Inl (RuntimeError (ascii ''FFmpeg conversion failed''))
   \<and> fst (main env_ffmpeg_fails ui_go w_empty)
       = Inr (Aborted (RuntimeError (ascii ''FFmpeg conversion failed'')))"
proof -
  have run: "subprocess_run env_ffmpeg_fails
       (ffmpeg_command (ascii ''downloaded_audio.webm'') (ascii ''converted_audio.wav''))
       (fs w_downloaded) = (Inr (1, ascii ''Invalid data found''), fs w_downloaded)"
    by (simp add: env_ffmpeg_fails_def)
  have rc: "(1::int) \<noteq> 0" by simp
  have d: "\<not> endswith (ascii ''downloaded_audio.webm'') (ascii ''.wav'')
      \<and> button_summarize ui_go \<and> text_input_url ui_go \<noteq> []
      \<and> ydl_download env_ffmpeg_fails (text_input_url ui_go) (fs w_empty)
          = (Inr (ascii ''downloaded_audio.webm''), fs w_downloaded)
      \<and> ollama_chat env_ffmpeg_fails (ascii ''llama3.2:latest'') (ascii ''Hello!'') = Inr resp_ok"
    by (simp add: webm_not_wav env_ffmpeg_fails_def env_ok_def ui_go_def w_empty_def w_downloaded_def)
  note t = conversion_failure_aborts [OF run rc, where u = ui_go and wm = w_empty
      and response = resp_ok]
  note t1 = t [THEN conjunct1]
  note t3 = t [THEN conjunct2, THEN conjunct2, THEN mp, OF d, THEN conjunct1]
  from run t1 t3 show ?thesis by simp
qed

text \<open>
  C3. When the greeting request raises, \<open>initialize_model\<close> reports the error and
  returns \<open>None\<close> without raising. \<open>main\<close> then returns normally: not triggered, stopped
  by the early return after model initialization, or, if the download itself raised before,
  through the handler with that exception. With a triggered run and a successful download
  the result is the early return and the events are exactly the listed ones. In no case is
  there a conversion, a call of the speech model, the status message of the Transcribing or
  the Summarizing step, or a chat request other than the greeting.
\<close>

theorem model_initialization_failure_halts:
  assumes "ollama_chat env (ascii ''llama3.2:latest'') (ascii ''Hello!'') = Inl e"
  shows "initialize_model env wi =
           (Inr None, emit (St_error (Ollama_failed e))
                        (emit (Ollama_chat (ascii ''llama3.2:latest'') (ascii ''Hello!'')) wi))
     \<and> (fst (main env u w) = Inr Not_triggered \<or> fst (main env u w) = Inr Halted_no_model
          \<or> (\<exists>e'. fst (main env u w) = Inr (Aborted e')
                \<and> fst (ydl_download env (text_input_url u) (fs w)) = Inl e'))
     \<and> (button_summarize u \<and> text_input_url u \<noteq> []
          \<and> fst (ydl_download env (text_input_url u) (fs w)) = Inr p
        \<longrightarrow> fst (main env u w) = Inr Halted_no_model
          \<and> new_events w (snd (main env u w)) = page_events @
              [Time_time, St_success Downloading_audio, Ydl_download (text_input_url u),
               St_info Initializing_model,
               Ollama_chat (ascii ''llama3.2:latest'') (ascii ''Hello!''),
               St_error (Ollama_failed e)])
     \<and> (\<forall>tier. Whisper_load_model tier \<notin> set (new_events w (snd (main env u w))))
     \<and> (\<forall>tier q. Whisper_transcribe tier q \<notin> set (new_events w (snd (main env u w))))
     \<and> (\<forall>cmd. Subprocess_run cmd \<notin> set (new_events w (snd (main env u w))))
     \<and> St_info Transcribing_audio \<notin> set (new_events w (snd (main env u w)))
     \<and> St_info Generating_summary \<notin> set (new_events w (snd (main env u w)))
     \<and> (\<forall>m c. Ollama_chat m c \<in> set (new_events w (snd (main env u w)))
           \<longrightarrow> c = ascii ''Hello!'')"
proof -
  have init: "initialize_model env wi =
           (Inr None, emit (St_error (Ollama_failed e))
                        (emit (Ollama_chat (ascii ''llama3.2:latest'') (ascii ''Hello!'')) wi))"
    using assms by (simp add: initialize_model_def)
  have rest: "(fst (main env u w) = Inr Not_triggered \<or> fst (main env u w) = Inr Halted_no_model
          \<or> (\<exists>e'. fst (main env u w) = Inr (Aborted e')
                \<and> fst (ydl_download env (text_input_url u) (fs w)) = Inl e'))
     \<and> (button_summarize u \<and> text_input_url u \<noteq> []
          \<and> fst (ydl_download env (text_input_url u) (fs w)) = Inr p
        \<longrightarrow> fst (main env u w) = Inr Halted_no_model
          \<and> new_events w (snd (main env u w)) = page_events @
              [Time_time, St_success Downloading_audio, Ydl_download (text_input_url u),
               St_info Initializing_model,
               Ollama_chat (ascii ''llama3.2:latest'') (ascii ''Hello!''),
               St_error (Ollama_failed e)])
     \<and> (\<forall>tier. Whisper_load_model tier \<notin> set (new_events w (snd (main env u w))))
     \<and> (\<forall>tier q. Whisper_transcribe tier q \<notin> set (new_events w (snd (main env u w))))
     \<and> (\<forall>cmd. Subprocess_run cmd \<notin> set (new_events w (snd (main env u w))))
     \<and> St_info Transcribing_audio \<notin> set (new_events w (snd (main env u w)))
     \<and> St_info Generating_summary \<notin> set (new_events w (snd (main env u w)))
     \<and> (\<forall>m c. Ollama_chat m c \<in> set (new_events w (snd (main env u w)))
           \<longrightarrow> c = ascii ''Hello!'')"
  proof (cases rule: main_cases [where u = u and env = env and w = w])
    case (idle w')
    note ev = main_events [OF idle(2,3)]
    show ?thesis using idle(1) by (auto simp: ev)
  next
    case (download_raised e' w')
    note ev = main_events [OF download_raised(4,5)]
    show ?thesis using download_raised(3) by (simp add: ev)
  next
    case (no_model p' e' w')
    note ev = main_events [OF no_model(5,6)]
    show ?thesis using no_model(3,4) assms by (simp add: ev)
  next
    case (transcribe_raised p' response e' wI wT w')
    with assms show ?thesis by simp
  next
    case (no_transcript p' response t wI wT w')
    with assms show ?thesis by simp
  next
    case (summarized p' response t wI wT s tail wR rC wC w')
    with assms show ?thesis by simp
  qed
  from init rest show ?thesis by blast
qed

theorem model_initialization_failure_halts_witness:
  "ollama_chat env_llm_down (ascii ''llama3.2:latest'') (ascii ''Hello!'')
     = Inl (OtherException (ascii ''connection refused''))
   \<and> fst (initialize_model env_llm_down w_empty) = Inr None
   \<and> fst (main env_llm_down ui_go w_empty) = Inr Halted_no_model"
proof -
  have h: "ollama_chat env_llm_down (ascii ''llama3.2:latest'') (ascii ''Hello!'')
     = Inl (OtherException (ascii ''connection refused''))"
    by (simp add: env_llm_down_def)
  have d: "button_summarize ui_go \<and> text_input_url ui_go \<noteq> []
          \<and> fst (ydl_download env_llm_down (text_input_url ui_go) (fs w_empty))
              = Inr (ascii ''downloaded_audio.webm'')"
    by (simp add: env_llm_down_def env_ok_def ui_go_def)
  note t = model_initialization_failure_halts [OF h, where u = ui_go and w = w_empty
      and wi = w_empty and p = "ascii ''downloaded_audio.webm''"]
  note t1 = t [THEN conjunct1]
  note t3 = t [THEN conjunct2, THEN conjunct2, THEN conjunct1, THEN mp, OF d, THEN conjunct1]
  from h t1 t3 show ?thesis by simp
qed

text \<open>
  C4. \<open>transcribe_audio\<close> runs the conversion subprocess not at all for a path that ends
  in ".wav" and exactly once for any other path; in the second case the subprocess is the
  first thing after the opening status message, so it precedes the loading of the speech
  model and the transcription.
\<close>

theorem conversion_only_for_other_extensions:
  "length (filter is_subprocess (new_events w (snd (transcribe_audio env file_path w)))) =
     (if endswith file_path (ascii ''.wav'') then 0 else 1)
   \<and> (\<not> endswith file_path (ascii ''.wav'') \<longrightarrow>
        (\<exists>rest. new_events w (snd (transcribe_audio env file_path w)) =
           [St_success Transcribing_with_whisper,
            Subprocess_run (ffmpeg_command file_path (ascii ''converted_audio.wav''))] @ rest
         \<and> filter is_subprocess rest = []))"
proof (cases "endswith file_path (ascii ''.wav'')")
  case True
  then show ?thesis using transcribe_no_conversion [of file_path w env] by simp
next
  case False
  from transcribe_one_conversion [OF False, of w env] obtain rest where
    r: "new_events w (snd (transcribe_audio env file_path w)) =
           [St_success Transcribing_with_whisper,
            Subprocess_run (ffmpeg_command file_path (ascii ''converted_audio.wav''))] @ rest"
      "filter is_subprocess rest = []" by blast
  have "length (filter is_subprocess (new_events w (snd (transcribe_audio env file_path w)))) = 1"
    unfolding r(1) using r(2) by simp
  with False r show ?thesis by simp
qed

theorem conversion_only_for_other_extensions_witness:
  "\<not> endswith (ascii ''downloaded_audio.webm'') (ascii ''.wav'')
   \<and> length (filter is_subprocess
        (new_events w_empty (snd (transcribe_audio env_ok (ascii ''downloaded_audio.webm'') w_empty)))) = 1"
  using conversion_only_for_other_extensions
          [of w_empty env_ok "ascii ''downloaded_audio.webm''", THEN conjunct1]
    webm_not_wav by simp







text \<open>
  C7. \<open>summarize_text\<close> makes exactly one chat request, to the given model, whose content
  is "Summarize this: " followed by the transcript. If the response has a message with a
  string content, the result is that content stripped; if the request raises, or the
  response has no such shape, the error is shown and the result is \<open>None\<close>. It never
  raises. Stripping removes a whitespace prefix and a whitespace suffix and leaves no
  whitespace at either end.
\<close>

theorem summarize_text_contract:
  "(\<exists>tail. new_events w (snd (summarize_text env (Some t) model w)) =
        Ollama_chat model (ascii ''Summarize this: '' @ t) # tail
      \<and> (\<forall>m c. Ollama_chat m c \<notin> set tail))
   \<and> (\<forall>items message c.
        ollama_chat env model (ascii ''Summarize this: '' @ t) = Inr (PDict items)
        \<and> map_of items (ascii ''message'') = Some (PDict message)
        \<and> map_of message (ascii ''content'') = Some (PStr c)
        \<longrightarrow> summarize_text env (Some t) model w =
              (Inr (Some (strip c)), emit (Ollama_chat model (ascii ''Summarize this: '' @ t)) w))
   \<and> (\<forall>e. ollama_chat env model (ascii ''Summarize this: '' @ t) = Inl e
        \<or> (\<exists>response. ollama_chat env model (ascii ''Summarize this: '' @ t) = Inr response
              \<and> message_content response = Inl e)
        \<longrightarrow> summarize_text env (Some t) model w =
              (Inr None, emit (St_error (Failed_to_summarize e))
                           (emit (Ollama_chat model (ascii ''Summarize this: '' @ t)) w)))
   \<and> (\<forall>e. fst (summarize_text env transcript model w) \<noteq> Inl e)
   \<and> (\<exists>pre post. c = pre @ strip c @ post \<and> list_all isspace pre \<and> list_all isspace post)
   \<and> (strip c \<noteq> [] \<longrightarrow> \<not> isspace (hd (strip c)) \<and> \<not> isspace (last (strip c)))"
proof (intro conjI)
  show "\<exists>tail. new_events w (snd (summarize_text env (Some t) model w)) =
        Ollama_chat model (ascii ''Summarize this: '' @ t) # tail
      \<and> (\<forall>m c. Ollama_chat m c \<notin> set tail)"
    by (auto simp: summarize_text_def emit_def new_events_def Let_def split: sum.splits)
  show "\<forall>items message c.
        ollama_chat env model (ascii ''Summarize this: '' @ t) = Inr (PDict items)
        \<and> map_of items (ascii ''message'') = Some (PDict message)
        \<and> map_of message (ascii ''content'') = Some (PStr c)
        \<longrightarrow> summarize_text env (Some t) model w =
              (Inr (Some (strip c)), emit (Ollama_chat model (ascii ''Summarize this: '' @ t)) w)"
    by (simp add: summarize_text_def message_content_def)
  show "\<forall>e. ollama_chat env model (ascii ''Summarize this: '' @ t) = Inl e
        \<or> (\<exists>response. ollama_chat env model (ascii ''Summarize this: '' @ t) = Inr response
              \<and> message_content response = Inl e)
        \<longrightarrow> summarize_text env (Some t) model w =
              (Inr None, emit (St_error (Failed_to_summarize e))
                           (emit (Ollama_chat model (ascii ''Summarize this: '' @ t)) w))"
    by (auto simp: summarize_text_def)
  show "\<forall>e. fst (summarize_text env transcript model w) \<noteq> Inl e"
    by (auto simp: summarize_text_def Let_def split: sum.splits)
  show "\<exists>pre post. c = pre @ strip c @ post \<and> list_all isspace pre \<and> list_all isspace post"
    by (rule strip_decomp)
  show "strip c \<noteq> [] \<longrightarrow> \<not> isspace (hd (strip c)) \<and> \<not> isspace (last (strip c))"
    using strip_ends by blast
qed

theorem summarize_text_contract_witness:
  "ollama_chat env_ok (ascii ''llama3.2:latest'') (ascii ''Summarize this: '' @ ascii ''hello'')
     = Inr resp_ok
   \<and> summarize_text env_ok (Some (ascii ''hello'')) (ascii ''llama3.2:latest'') w_empty =
       (Inr (Some (ascii ''A short talk.'')),
        emit (Ollama_chat (ascii ''llama3.2:latest'') (ascii ''Summarize this: '' @ ascii ''hello''))
          w_empty)"
proof -
  have h: "ollama_chat env_ok (ascii ''llama3.2:latest'') (ascii ''Summarize this: '' @ ascii ''hello'')
       = Inr (PDict [(ascii ''message'',
            PDict [(ascii ''role'', PStr (ascii ''assistant'')),
                   (ascii ''content'', PStr (ascii '' A short talk. ''))])])
     \<and> map_of [(ascii ''message'',
            PDict [(ascii ''role'', PStr (ascii ''assistant'')),
                   (ascii ''content'', PStr (ascii '' A short talk. ''))])] (ascii ''message'')
       = Some (PDict [(ascii ''role'', PStr (ascii ''assistant'')),
                   (ascii ''content'', PStr (ascii '' A short talk. ''))])
     \<and> map_of [(ascii ''role'', PStr (ascii ''assistant'')),
                   (ascii ''content'', PStr (ascii '' A short talk. ''))] (ascii ''content'')
       = Some (PStr (ascii '' A short talk. ''))"
    by (simp add: env_ok_def resp_ok_def)
  have r: "ollama_chat env_ok (ascii ''llama3.2:latest'') (ascii ''Summarize this: '' @ ascii ''hello'')
     = Inr resp_ok"
    by (simp add: env_ok_def)
  note t = summarize_text_contract [where env = env_ok and t = "ascii ''hello''"
      and model = "ascii ''llama3.2:latest''" and w = w_empty,
      THEN conjunct2, THEN conjunct1, THEN spec, THEN spec, THEN spec, THEN mp, OF h]
  from t r show ?thesis by (simp add: strip_example)
qed

text \<open>
  C8. When the file needs no conversion or the conversion succeeds, and the "small" model
  loads, \<open>transcribe_audio\<close> loads that tier, transcribes the (converted) file and returns
  the "text" item of the result; it returns \<open>None\<close> when the result is \<open>None\<close> or has no
  such item. The last event is the completion message in the first case and the failure
  message in the second.
\<close>

theorem transcribe_audio_contract:
  assumes conv: "endswith p (ascii ''.wav'')
           \<or> (\<exists>err. fst (subprocess_run env (ffmpeg_command p (ascii ''converted_audio.wav'')) (fs w))
                      = Inr (0, err))"
    and load: "whisper_load_model env (ascii ''small'') = Inr ()"
    and tr: "whisper_transcribe env (ascii ''small'')
               (if endswith p (ascii ''.wav'') then p else ascii ''converted_audio.wav'')
               (if endswith p (ascii ''.wav'') then fs w
                else snd (subprocess_run env (ffmpeg_command p (ascii ''converted_audio.wav'')) (fs w)))
             = Inr result"
  shows "fst (transcribe_audio env p w) =
           Inr (case result of None \<Rightarrow> None | Some items \<Rightarrow> map_of items (ascii ''text''))
     \<and> new_events w (snd (transcribe_audio env p w)) =
         St_success Transcribing_with_whisper #
         (if endswith p (ascii ''.wav'') then []
          else [Subprocess_run (ffmpeg_command p (ascii ''converted_audio.wav''))]) @
         [Whisper_load_model (ascii ''small''),
          Whisper_transcribe (ascii ''small'')
            (if endswith p (ascii ''.wav'') then p else ascii ''converted_audio.wav''),
          (if (case result of None \<Rightarrow> None | Some items \<Rightarrow> map_of items (ascii ''text'')) = None
           then St_error Transcription_failed else St_success Transcription_complete)]"
proof (cases "endswith p (ascii ''.wav'')")
  case True
  show ?thesis
  proof (cases result)
    case None
    with True load tr show ?thesis
      by (simp add: transcribe_audio_def Let_def new_events_def)
  next
    case (Some items)
    with True load tr show ?thesis
      by (cases "map_of items (ascii ''text'')")
         (auto simp: transcribe_audio_def Let_def new_events_def)
  qed
next
  case False
  with conv obtain err where
    "fst (subprocess_run env (ffmpeg_command p (ascii ''converted_audio.wav'')) (fs w)) = Inr (0, err)"
    by blast
  then obtain f' where
    run: "subprocess_run env (ffmpeg_command p (ascii ''converted_audio.wav'')) (fs w) = (Inr (0, err), f')"
    by (cases "subprocess_run env (ffmpeg_command p (ascii ''converted_audio.wav'')) (fs w)") simp
  have c: "convert_audio env p (emit (St_success Transcribing_with_whisper) w) =
     (Inr (ascii ''converted_audio.wav''),
      (emit (Subprocess_run (ffmpeg_command p (ascii ''converted_audio.wav'')))
         (emit (St_success Transcribing_with_whisper) w))\<lparr>fs := f'\<rparr>)"
    using run by (simp add: convert_audio_def Let_def)
  from tr False run have tr': "whisper_transcribe env (ascii ''small'') (ascii ''converted_audio.wav'') f'
     = Inr result" by simp
  show ?thesis
  proof (cases result)
    case None
    with False load tr' c show ?thesis
      by (simp add: transcribe_audio_def Let_def new_events_def)
  next
    case (Some items)
    with False load tr' c show ?thesis
      by (cases "map_of items (ascii ''text'')")
         (auto simp: transcribe_audio_def Let_def new_events_def)
  qed
qed

theorem transcribe_audio_contract_witness:
  "whisper_load_model env_ok (ascii ''small'') = Inr ()
   \<and> fst (transcribe_audio env_ok (ascii ''downloaded_audio.webm'') w_empty)
       = Inr (Some (ascii '' hello there''))"
proof -
  have conv: "endswith (ascii ''downloaded_audio.webm'') (ascii ''.wav'')
           \<or> (\<exists>err. fst (subprocess_run env_ok
                  (ffmpeg_command (ascii ''downloaded_audio.webm'') (ascii ''converted_audio.wav''))
                  (fs w_empty)) = Inr (0, err))"
    by (simp add: env_ok_def)
  have load: "whisper_load_model env_ok (ascii ''small'') = Inr ()"
    by (simp add: env_ok_def)
  have tr: "whisper_transcribe env_ok (ascii ''small'')
               (if endswith (ascii ''downloaded_audio.webm'') (ascii ''.wav'')
                then ascii ''downloaded_audio.webm'' else ascii ''converted_audio.wav'')
               (if endswith (ascii ''downloaded_audio.webm'') (ascii ''.wav'') then fs w_empty
                else snd (subprocess_run env_ok
                  (ffmpeg_command (ascii ''downloaded_audio.webm'') (ascii ''converted_audio.wav''))
                  (fs w_empty)))
             = Inr (Some [(ascii ''text'', ascii '' hello there''), (ascii ''language'', ascii ''en'')])"
    by (simp add: env_ok_def)
  from transcribe_audio_contract [OF conv load tr, THEN conjunct1] load show ?thesis by simp
qed



text \<open>
  C10. Each deletion is behind an existence check: with the target names absent,
  \<open>cleanup_files\<close> and \<open>delete_file\<close> return normally and change nothing, neither ever
  raises the error of removing a missing file, and a second run of either leaves the file
  system as the first run left it.
\<close>

theorem cleanup_guarded_idempotent:
  "(fs w (ascii ''downloaded_audio.mp3'') = None \<and> fs w (ascii ''converted_audio.wav'') = None
      \<longrightarrow> cleanup_files w = (Inr (), w))
   \<and> (fs w p = None \<longrightarrow> delete_file p w = (Inr (), w))
   \<and> fst (cleanup_files w) \<noteq> Inl (FileNotFoundError q)
   \<and> fst (delete_file p w) \<noteq> Inl (FileNotFoundError q)
   \<and> fs (snd (cleanup_files (snd (cleanup_files w)))) = fs (snd (cleanup_files w))
   \<and> fs (snd (delete_file p (snd (delete_file p w)))) = fs (snd (delete_file p w))"
proof (intro conjI impI)
  assume "fs w (ascii ''downloaded_audio.mp3'') = None \<and> fs w (ascii ''converted_audio.wav'') = None"
  then show "cleanup_files w = (Inr (), w)"
    unfolding cleanup_files_def by (intro cleanup_loop_absent) simp
next
  assume "fs w p = None"
  then show "delete_file p w = (Inr (), w)"
    by (simp add: delete_file_def os_path_exists_def)
next
  show "fst (cleanup_files w) \<noteq> Inl (FileNotFoundError q)"
    unfolding cleanup_files_def by (rule cleanup_loop_not_missing)
next
  show "fst (delete_file p w) \<noteq> Inl (FileNotFoundError q)"
    using os_remove_not_missing [of w p q] by (simp add: delete_file_def)
next
  show "fs (snd (cleanup_files (snd (cleanup_files w)))) = fs (snd (cleanup_files w))"
    by (simp add: cleanup_files_fs_cases)
next
  show "fs (snd (delete_file p (snd (delete_file p w)))) = fs (snd (delete_file p w))"
    by (simp add: delete_file_fs)
qed

theorem cleanup_guarded_idempotent_witness:
  "fs w_empty (ascii ''downloaded_audio.mp3'') = None
   \<and> fs w_empty (ascii ''converted_audio.wav'') = None
   \<and> cleanup_files w_empty = (Inr (), w_empty)
   \<and> delete_file (ascii ''converted_audio.wav'') w_empty = (Inr (), w_empty)"
  using cleanup_guarded_idempotent [of w_empty "ascii ''converted_audio.wav''"]
  by (simp add: w_empty_def)

end
